theory Spec2Isabelle
  imports Complex_Main "HOL-Library.Multiset"
begin

section \<open>The debt list widget (client/src/components/dashboard/quick-stats.tsx)\<close>

text \<open>
  The component \<open>QuickStats\<close> derives a list of debtors from the fetched customers, renders
  it with a footer, and records a payment through a dialog. The development below embeds
  the derivation, the two formatting helpers, the three handlers and the callbacks of the
  payment mutation, and the parts of the rendering the properties speak about.
\<close>

subsection \<open>JavaScript numbers\<close>

text \<open>
  A JavaScript number is \<open>NaN\<close>, one of the two infinities, or a finite value. Finite
  values are kept as exact rationals: the rounding of binary64 is not part of the model,
  and the two zeros are one value (no operation below tells them apart).
\<close>

datatype number = NaN | NegInf | Fin rat | PosInf

text \<open>The relational operators: every comparison with \<open>NaN\<close> is false.\<close>

fun js_lt :: "number \<Rightarrow> number \<Rightarrow> bool" where
  "js_lt NaN _ = False"
| "js_lt _ NaN = False"
| "js_lt _ NegInf = False"
| "js_lt NegInf _ = True"
| "js_lt PosInf _ = False"
| "js_lt (Fin a) PosInf = True"
| "js_lt (Fin a) (Fin b) = (a < b)"

definition js_gt :: "number \<Rightarrow> number \<Rightarrow> bool" where
  "js_gt a b = js_lt b a"

definition js_le :: "number \<Rightarrow> number \<Rightarrow> bool" where
  "js_le a b = (a \<noteq> NaN \<and> b \<noteq> NaN \<and> \<not> js_lt b a)"

definition js_ge :: "number \<Rightarrow> number \<Rightarrow> bool" where
  "js_ge a b = (a \<noteq> NaN \<and> b \<noteq> NaN \<and> \<not> js_lt a b)"

text \<open>Addition and subtraction: \<open>NaN\<close> is absorbing, and opposite infinities cancel to \<open>NaN\<close>.\<close>

fun js_add :: "number \<Rightarrow> number \<Rightarrow> number" where
  "js_add NaN _ = NaN"
| "js_add _ NaN = NaN"
| "js_add PosInf NegInf = NaN"
| "js_add NegInf PosInf = NaN"
| "js_add PosInf _ = PosInf"
| "js_add _ PosInf = PosInf"
| "js_add NegInf _ = NegInf"
| "js_add _ NegInf = NegInf"
| "js_add (Fin a) (Fin b) = Fin (a + b)"

fun js_neg :: "number \<Rightarrow> number" where
  "js_neg NaN = NaN"
| "js_neg NegInf = PosInf"
| "js_neg PosInf = NegInf"
| "js_neg (Fin a) = Fin (- a)"

definition js_sub :: "number \<Rightarrow> number \<Rightarrow> number" where
  "js_sub a b = js_add a (js_neg b)"

text \<open>\<open>x || 0\<close> on a number that may be missing: \<open>undefined\<close>, \<open>NaN\<close> and zero are falsy.\<close>

definition or_zero :: "number option \<Rightarrow> number" where
  "or_zero v = (case v of None \<Rightarrow> Fin 0
                | Some x \<Rightarrow> if x = NaN \<or> x = Fin 0 then Fin 0 else x)"

subsection \<open>Strings of digits\<close>

definition isDigit :: "char \<Rightarrow> bool" where
  "isDigit c = (c \<in> set ''0123456789'')"

text \<open>
  The value of a string of decimal digits, and the decimal digits of an integer that is
  not negative.
\<close>

definition digit_val :: "char \<Rightarrow> int" where
  "digit_val c = of_char c - 48"

definition digits_value :: "string \<Rightarrow> int" where
  "digits_value ds = foldl (\<lambda>n c. 10 * n + digit_val c) 0 ds"

function digits_of :: "int \<Rightarrow> string" where
  "digits_of n = (if n < 10 then [''0123456789'' ! nat n]
                  else digits_of (n div 10) @ [''0123456789'' ! nat (n mod 10)])"
  by pat_completeness auto
termination
  by (relation "measure nat") auto

declare digits_of.simps [simp del]

subsection \<open>parseFloat\<close>

text \<open>
  The global \<open>parseFloat\<close> of ECMAScript: leading white space is skipped, the longest
  prefix that is a decimal literal (sign, digits, fraction, exponent, or \<open>Infinity\<close>) is
  read, and the rest of the text is ignored; a text with no such prefix gives \<open>NaN\<close>.
  Strings are ASCII here, so the white space is the ASCII white space.
\<close>

definition isWhiteSpace :: "char \<Rightarrow> bool" where
  "isWhiteSpace c = (c \<in> set [CHR 0x09, CHR 0x0A, CHR 0x0B, CHR 0x0C, CHR 0x0D, CHR 0x20])"

definition decimal_value :: "int \<Rightarrow> int \<Rightarrow> rat" where
  "decimal_value m k = (if 0 \<le> k then of_int m * 10 ^ nat k else of_int m / 10 ^ nat (- k))"

definition exponentPart :: "string \<Rightarrow> int" where
  "exponentPart r =
     (case r of
        [] \<Rightarrow> 0
      | c # r1 \<Rightarrow>
          if c = CHR ''e'' \<or> c = CHR ''E'' then
            (case r1 of
               [] \<Rightarrow> 0
             | s # r2 \<Rightarrow>
                 if s = CHR ''-'' then
                   (if takeWhile isDigit r2 = [] then 0
                    else - digits_value (takeWhile isDigit r2))
                 else if s = CHR ''+'' then digits_value (takeWhile isDigit r2)
                 else digits_value (takeWhile isDigit r1))
          else 0)"

definition unsignedLiteral :: "string \<Rightarrow> number" where
  "unsignedLiteral u =
     (if take 8 u = ''Infinity'' then PosInf
      else
        let ip = takeWhile isDigit u;
            r1 = dropWhile isDigit u;
            fp = (case r1 of [] \<Rightarrow> [] | c # r \<Rightarrow> if c = CHR ''.'' then takeWhile isDigit r else []);
            r2 = (case r1 of [] \<Rightarrow> [] | c # r \<Rightarrow> if c = CHR ''.'' then dropWhile isDigit r else r1)
        in if ip = [] \<and> fp = [] then NaN
           else Fin (decimal_value (digits_value (ip @ fp)) (exponentPart r2 - int (length fp))))"

definition parseFloat :: "string \<Rightarrow> number" where
  "parseFloat s =
     (case dropWhile isWhiteSpace s of
        [] \<Rightarrow> NaN
      | c # r \<Rightarrow>
          if c = CHR ''-'' then js_neg (unsignedLiteral r)
          else if c = CHR ''+'' then unsignedLiteral r
          else unsignedLiteral (c # r))"

subsection \<open>Number.prototype.toFixed\<close>

text \<open>
  \<open>x.toFixed(f)\<close>: a value that is not finite prints as its name; otherwise the sign, then
  the integer \<open>n\<close> nearest to \<open>x * 10^f\<close> (the larger one on a tie) written with \<open>f\<close>
  digits after the point. From \<open>10^21\<close> on ECMAScript prints the number in exponent form
  instead; the model prints the integer part in exponent form with all its significant
  digits, which is what ECMAScript prints whenever the value has at most fifteen
  significant digits.
\<close>

definition exponentForm :: "int \<Rightarrow> string" where
  "exponentForm i =
     (let ds = digits_of i;
          sig = rev (dropWhile (\<lambda>c. c = CHR ''0'') (rev ds));
          e = ''e+'' @ digits_of (int (length ds) - 1)
      in case sig of
           [] \<Rightarrow> ''0''
         | d # rest \<Rightarrow> if rest = [] then d # e else d # CHR ''.'' # rest @ e)"

definition fixedDigits :: "nat \<Rightarrow> rat \<Rightarrow> string" where
  "fixedDigits f x =
     (if 10 ^ 21 \<le> x then exponentForm \<lfloor>x\<rfloor>
      else
        let n = \<lfloor>x * 10 ^ f + 1 / 2\<rfloor>;
            m = digits_of n;
            m' = replicate (f + 1 - length m) (CHR ''0'') @ m;
            k = length m'
        in if f = 0 then m else take (k - f) m' @ ''.'' @ drop (k - f) m')"

fun toFixed :: "nat \<Rightarrow> number \<Rightarrow> string" where
  "toFixed f NaN = ''NaN''"
| "toFixed f PosInf = ''Infinity''"
| "toFixed f NegInf = ''-Infinity''"
| "toFixed f (Fin x) = (if x < 0 then ''-'' @ fixedDigits f (- x) else fixedDigits f x)"

subsection \<open>Date\<close>

text \<open>
  \<open>new Date(text).getTime()\<close>. The model reads the date-time format of ECMAScript in its
  UTC forms, \<open>YYYY\<close>, \<open>YYYY-MM\<close> or \<open>YYYY-MM-DD\<close>, alone or followed by \<open>T\<close>, a time
  \<open>HH:mm\<close>, \<open>HH:mm:ss\<close> or \<open>HH:mm:ss.sss\<close>, and \<open>Z\<close>; the last of them is what a timestamp
  looks like in a JSON response. Every other text is an invalid date here, whose time value
  is \<open>NaN\<close>: the empty text is invalid in ECMAScript as well, while an engine may accept
  further formats (local times, legacy formats) that the model leaves out.
\<close>

definition take_digits :: "nat \<Rightarrow> string \<Rightarrow> (int \<times> string) option" where
  "take_digits n s =
     (if length (take n s) = n \<and> list_all isDigit (take n s)
      then Some (digits_value (take n s), drop n s) else None)"

definition parse_clock :: "string \<Rightarrow> (int \<times> int \<times> int \<times> int) option" where
  "parse_clock s =
     (case take_digits 2 s of
        None \<Rightarrow> None
      | Some (h, r1) \<Rightarrow>
          (case take_digits 2 (drop 1 r1) of
             None \<Rightarrow> None
           | Some (mi, r2) \<Rightarrow>
               if take 1 r1 \<noteq> '':'' then None
               else if r2 = ''Z'' then Some (h, mi, 0, 0)
               else
                 (case take_digits 2 (drop 1 r2) of
                    None \<Rightarrow> None
                  | Some (sec, r3) \<Rightarrow>
                      if take 1 r2 \<noteq> '':'' then None
                      else if r3 = ''Z'' then Some (h, mi, sec, 0)
                      else
                        (case take_digits 3 (drop 1 r3) of
                           None \<Rightarrow> None
                         | Some (ms, r4) \<Rightarrow>
                             if take 1 r3 = ''.'' \<and> r4 = ''Z'' then Some (h, mi, sec, ms)
                             else None))))"

definition parse_calendar :: "string \<Rightarrow> ((int \<times> int \<times> int) \<times> string) option" where
  "parse_calendar s =
     (case take_digits 4 s of
        None \<Rightarrow> None
      | Some (y, r1) \<Rightarrow>
          if take 1 r1 \<noteq> ''-'' then Some ((y, 1, 1), r1)
          else
            (case take_digits 2 (drop 1 r1) of
               None \<Rightarrow> None
             | Some (m, r2) \<Rightarrow>
                 if take 1 r2 \<noteq> ''-'' then Some ((y, m, 1), r2)
                 else
                   (case take_digits 2 (drop 1 r2) of
                      None \<Rightarrow> None
                    | Some (d, r3) \<Rightarrow> Some ((y, m, d), r3))))"

definition isLeapYear :: "int \<Rightarrow> bool" where
  "isLeapYear y = (if y mod 400 = 0 then True else if y mod 100 = 0 then False else y mod 4 = 0)"

definition daysInMonth :: "int \<Rightarrow> int \<Rightarrow> int" where
  "daysInMonth y m =
     [31, if isLeapYear y then 29 else 28, 31, 30, 31, 30, 31, 31, 30, 31, 30, 31] ! nat (m - 1)"

definition dayFromYear :: "int \<Rightarrow> int" where
  "dayFromYear y =
     365 * (y - 1970) + (y - 1969) div 4 - (y - 1901) div 100 + (y - 1601) div 400"

definition makeDay :: "int \<Rightarrow> int \<Rightarrow> int \<Rightarrow> int" where
  "makeDay y m d =
     dayFromYear y
     + [0, 31, 59, 90, 120, 151, 181, 212, 243, 273, 304, 334] ! nat (m - 1)
     + (if isLeapYear y \<and> 2 < m then 1 else 0)
     + d - 1"

definition makeTime :: "int \<times> int \<times> int \<times> int \<Rightarrow> int option" where
  "makeTime c =
     (case c of (h, mi, sec, ms) \<Rightarrow>
        if (h < 24 \<and> mi < 60 \<and> sec < 60) \<or> (h = 24 \<and> mi = 0 \<and> sec = 0 \<and> ms = 0)
        then Some (((h * 60 + mi) * 60 + sec) * 1000 + ms)
        else None)"

definition Date_parse :: "string \<Rightarrow> int option" where
  "Date_parse s =
     (case parse_calendar s of
        None \<Rightarrow> None
      | Some ((y, m, d), r) \<Rightarrow>
          if m < 1 \<or> 12 < m \<or> d < 1 \<or> daysInMonth y m < d then None
          else if r = [] then Some (makeDay y m d * 86400000)
          else if take 1 r \<noteq> ''T'' then None
          else
            (case parse_clock (drop 1 r) of
               None \<Rightarrow> None
             | Some c \<Rightarrow>
                 (case makeTime c of
                    None \<Rightarrow> None
                  | Some t \<Rightarrow> Some (makeDay y m d * 86400000 + t))))"

definition Date_getTime :: "string \<Rightarrow> number" where
  "Date_getTime s = (case Date_parse s of None \<Rightarrow> NaN | Some t \<Rightarrow> Fin (of_int t))"

subsection \<open>Array.prototype.sort\<close>

text \<open>
  \<open>xs.sort(comparefn)\<close>. ECMAScript reads the comparator's result as a number, takes
  \<open>NaN\<close> for zero, and asks for a stable sort; with a consistent comparator every engine
  returns the same array. The model is the stable insertion sort: an element moves behind
  the elements it compares strictly greater than, and stays before the ones it compares
  equal to. With an inconsistent comparator the order is the engine's choice.
\<close>

definition SortCompare :: "('a \<Rightarrow> 'a \<Rightarrow> number) \<Rightarrow> 'a \<Rightarrow> 'a \<Rightarrow> number" where
  "SortCompare comparefn x y = (if comparefn x y = NaN then Fin 0 else comparefn x y)"

fun sort_insert :: "('a \<Rightarrow> 'a \<Rightarrow> number) \<Rightarrow> 'a \<Rightarrow> 'a list \<Rightarrow> 'a list" where
  "sort_insert comparefn x [] = [x]"
| "sort_insert comparefn x (y # ys) =
     (if js_gt (SortCompare comparefn x y) (Fin 0) then y # sort_insert comparefn x ys
      else x # y # ys)"

fun Array_sort :: "('a \<Rightarrow> 'a \<Rightarrow> number) \<Rightarrow> 'a list \<Rightarrow> 'a list" where
  "Array_sort comparefn [] = []"
| "Array_sort comparefn (x # xs) = sort_insert comparefn x (Array_sort comparefn xs)"

subsection \<open>Customers and the debtor list\<close>

text \<open>
  Modelled from the spec: the type \<open>Customer\<close> of \<open>@shared/schema\<close> is not among the
  sources. The specification gives it an opaque identifier, a display name, a total debt
  that is a decimal written as text or absent, and a creation timestamp that is text or
  absent. The field \<open>id\<close> is written \<open>id'\<close>.
\<close>

record Customer =
  id' :: string
  name :: string
  totalDebt :: "string option"
  createdAt :: "string option"

datatype sort_order = Newest | Highest

text \<open>\<open>v ?? d\<close>, and the truth value of a text that may be absent.\<close>

definition nullish :: "'a option \<Rightarrow> 'a \<Rightarrow> 'a" where
  "nullish v d = (case v of None \<Rightarrow> d | Some x \<Rightarrow> x)"

definition truthy :: "string option \<Rightarrow> bool" where
  "truthy v = (case v of None \<Rightarrow> False | Some s \<Rightarrow> s \<noteq> [])"

text \<open>The predicate of the filter: \<open>customer.totalDebt && parseFloat(customer.totalDebt) > 0\<close>.\<close>

definition hasDebt :: "Customer \<Rightarrow> bool" where
  "hasDebt customer =
     (case totalDebt customer of
        None \<Rightarrow> False
      | Some s \<Rightarrow> s \<noteq> [] \<and> js_gt (parseFloat s) (Fin 0))"

text \<open>The comparator handed to \<open>sort\<close>, for the sort order in the component's state.\<close>

definition compareDebtors :: "sort_order \<Rightarrow> Customer \<Rightarrow> Customer \<Rightarrow> number" where
  "compareDebtors sortOrder a b =
     (if sortOrder = Highest
      then js_sub (parseFloat (nullish (totalDebt b) ''0'')) (parseFloat (nullish (totalDebt a) ''0''))
      else js_sub (Date_getTime (nullish (createdAt b) [])) (Date_getTime (nullish (createdAt a) [])))"

definition debtorCustomers :: "sort_order \<Rightarrow> Customer list \<Rightarrow> Customer list" where
  "debtorCustomers sortOrder customers =
     Array_sort (compareDebtors sortOrder) (filter hasDebt customers)"

subsection \<open>Formatting a debt\<close>

definition formatDebt :: "string option \<Rightarrow> string" where
  "formatDebt debt =
     (if \<not> truthy debt then ''0.00''
      else if parseFloat (the debt) = NaN then ''0.00''
      else toFixed 2 (parseFloat (the debt)))"

definition getDebtColor :: "string option \<Rightarrow> string" where
  "getDebtColor debt =
     (if \<not> truthy debt then ''text-slate-500''
      else if js_ge (parseFloat (the debt)) (Fin 5000) then ''text-red-600''
      else if js_ge (parseFloat (the debt)) (Fin 1000) then ''text-orange-600''
      else ''text-yellow-600'')"

subsection \<open>Notifications, requests and cache operations\<close>

text \<open>
  The component's user-visible texts are Arabic literals; each is named here by what it
  says. A rendered text is a sequence of such literals and of computed strings, in the
  order of the template that builds it.
\<close>

datatype wording =
    PaymentSucceeded          \<comment> \<open>title of the success notification\<close>
  | Paid                      \<comment> \<open>"paid", before the amount\<close>
  | RemainingBalance          \<comment> \<open>". remaining balance: ", before the new debt\<close>
  | PaymentError              \<comment> \<open>title of the failure notification\<close>
  | PaymentProcessingFailed   \<comment> \<open>description of the failure notification\<close>
  | ErrorTitle                \<comment> \<open>title of the validation notification\<close>
  | AmountMustBePositive      \<comment> \<open>"the amount must be greater than zero"\<close>
  | Processing                \<comment> \<open>the confirm button while the mutation is pending\<close>
  | ConfirmPayment            \<comment> \<open>the confirm button otherwise\<close>

datatype piece = Lit wording | Txt string

datatype variant = Default | Destructive

record toast =
  title :: wording
  description :: "piece list"
  variant :: variant

record payment_vars =
  customerId :: string
  amount :: number

record request =
  verb :: string
  url :: string
  body_amount :: number
  body_currency :: string

datatype effect =
    Toast toast
  | Mutate payment_vars
  | InvalidateQueries "string list"
  | RefetchQueries "string list"

text \<open>The JSON body of a successful payment response: only \<open>newDebt\<close> is read.\<close>

record payment_data =
  newDebt :: "number option"

text \<open>
  How the call of \<open>apiRequest\<close> ends: it rejects, or it resolves to a response with its
  \<open>ok\<close> flag and the value of \<open>response.json()\<close> (\<open>None\<close> when that rejects).
\<close>

datatype api_result = Rejected | Resolved bool "payment_data option"

datatype error = RequestRejected | FailedToProcessPayment | JsonRejected

subsection \<open>The component's state\<close>

record state =
  sortOrder :: sort_order
  showPaymentModal :: bool
  selectedCustomer :: "Customer option"
  paymentAmount :: string

subsection \<open>The payment mutation\<close>

text \<open>
  \<open>mutationFn\<close> in two halves: the request it hands to \<open>apiRequest\<close>, and what it makes of
  the answer (\<open>Inl\<close> is a thrown error). The currency is the component's property.
\<close>

definition mutationFn_request :: "string \<Rightarrow> payment_vars \<Rightarrow> request" where
  "mutationFn_request currency v =
     \<lparr>verb = ''POST'', url = ''/api/customers/'' @ customerId v @ ''/payment'',
      body_amount = amount v, body_currency = currency\<rparr>"

definition mutationFn_result :: "api_result \<Rightarrow> error + payment_data" where
  "mutationFn_result r =
     (case r of
        Rejected \<Rightarrow> Inl RequestRejected
      | Resolved ok body \<Rightarrow>
          if \<not> ok then Inl FailedToProcessPayment
          else (case body of None \<Rightarrow> Inl JsonRejected | Some d \<Rightarrow> Inr d))"

definition onSuccess :: "string \<Rightarrow> payment_data \<Rightarrow> state \<Rightarrow> state \<times> effect list" where
  "onSuccess currency d s =
     (s\<lparr>showPaymentModal := False, selectedCustomer := None, paymentAmount := []\<rparr>,
      [InvalidateQueries [''/api/customers''],
       InvalidateQueries [''/api/transactions''],
       RefetchQueries [''/api/customers''],
       Toast \<lparr>title = PaymentSucceeded,
              description =
                [Lit Paid, Txt (paymentAmount s), Txt '' '', Txt currency, Lit RemainingBalance,
                 Txt (toFixed 2 (or_zero (newDebt d))), Txt '' '', Txt currency],
              variant = Default\<rparr>])"

definition onError :: "state \<Rightarrow> state \<times> effect list" where
  "onError s =
     (s, [Toast \<lparr>title = PaymentError, description = [Lit PaymentProcessingFailed],
                 variant = Destructive\<rparr>])"

text \<open>What the mutation does once the request has ended: one of the two callbacks.\<close>

definition settle :: "string \<Rightarrow> api_result \<Rightarrow> state \<Rightarrow> state \<times> effect list" where
  "settle currency r s =
     (case mutationFn_result r of Inl e \<Rightarrow> onError s | Inr d \<Rightarrow> onSuccess currency d s)"

text \<open>The network requests among the effects of a handler: one for every \<open>mutate\<close>.\<close>

fun requests :: "string \<Rightarrow> effect list \<Rightarrow> request list" where
  "requests currency [] = []"
| "requests currency (Mutate v # es) = mutationFn_request currency v # requests currency es"
| "requests currency (e # es) = requests currency es"

fun toasts :: "effect list \<Rightarrow> toast list" where
  "toasts [] = []"
| "toasts (Toast t # es) = t # toasts es"
| "toasts (e # es) = toasts es"

fun invalidated :: "effect list \<Rightarrow> string list list" where
  "invalidated [] = []"
| "invalidated (InvalidateQueries k # es) = k # invalidated es"
| "invalidated (e # es) = invalidated es"

fun refetched :: "effect list \<Rightarrow> string list list" where
  "refetched [] = []"
| "refetched (RefetchQueries k # es) = k # refetched es"
| "refetched (e # es) = refetched es"

subsection \<open>The handlers\<close>

definition handlePayment :: "state \<Rightarrow> state \<times> effect list" where
  "handlePayment s =
     (if selectedCustomer s = None \<or> paymentAmount s = [] then (s, [])
      else if js_le (parseFloat (paymentAmount s)) (Fin 0)
      then (s, [Toast \<lparr>title = ErrorTitle, description = [Lit AmountMustBePositive],
                       variant = Destructive\<rparr>])
      else (s, [Mutate \<lparr>customerId = id' (the (selectedCustomer s)),
                        amount = parseFloat (paymentAmount s)\<rparr>]))"

definition openPaymentModal :: "Customer \<Rightarrow> state \<Rightarrow> state \<times> effect list" where
  "openPaymentModal customer s =
     (s\<lparr>selectedCustomer := Some customer, paymentAmount := [], showPaymentModal := True\<rparr>, [])"

text \<open>
  A submission from the dialog to its end: the confirm handler, then, when it started the
  mutation, the callback for the way the request ended.
\<close>

definition submit :: "string \<Rightarrow> api_result \<Rightarrow> state \<Rightarrow> state \<times> effect list" where
  "submit currency r s =
     (case handlePayment s of
        (s1, es) \<Rightarrow>
          if requests currency es = [] then (s1, es)
          else (case settle currency r s1 of (s2, es2) \<Rightarrow> (s2, es @ es2)))"

subsection \<open>Rendering\<close>

record debtor_row =
  row_name :: string
  row_id :: string
  row_color :: string
  row_amount :: string

record footer =
  debtorCount :: nat
  debtTotal :: string

record buttons =
  confirmDisabled :: bool
  confirmLabel :: wording
  cancelDisabled :: bool

datatype card_content = Placeholders nat | NoDebts | Rows "debtor_row list"

text \<open>
  What one render hands to the card and to the dialog. The dialog shows its buttons while
  \<open>dialog_open\<close> holds; they are part of its content only when a customer is selected.
\<close>

record view =
  content :: card_content
  card_footer :: "footer option"
  dialog_open :: bool
  dialog_buttons :: "buttons option"

definition debtorRow :: "string \<Rightarrow> Customer \<Rightarrow> debtor_row" where
  "debtorRow currency customer =
     \<lparr>row_name = name customer,
      row_id = ''ID: '' @ take 8 (id' customer) @ ''...'',
      row_color = getDebtColor (totalDebt customer),
      row_amount = formatDebt (totalDebt customer) @ '' '' @ currency\<rparr>"

text \<open>The footer's sum: \<open>reduce\<close> from zero, left to right.\<close>

definition debtSum :: "Customer list \<Rightarrow> number" where
  "debtSum debtors =
     foldl (\<lambda>sum customer. js_add sum (parseFloat (nullish (totalDebt customer) ''0'')))
       (Fin 0) debtors"

definition renderFooter :: "string \<Rightarrow> Customer list \<Rightarrow> footer option" where
  "renderFooter currency debtors =
     (if 0 < length debtors
      then Some \<lparr>debtorCount = length debtors,
                 debtTotal = toFixed 2 (debtSum debtors) @ '' '' @ currency\<rparr>
      else None)"

definition renderButtons :: "bool \<Rightarrow> state \<Rightarrow> buttons option" where
  "renderButtons isPending s =
     (case selectedCustomer s of
        None \<Rightarrow> None
      | Some c \<Rightarrow>
          Some \<lparr>confirmDisabled = (paymentAmount s = [] \<or> isPending),
                confirmLabel = (if isPending then Processing else ConfirmPayment),
                cancelDisabled = isPending\<rparr>)"

text \<open>
  One render, from the component's property, the state of the two library hooks (the
  fetched customers, empty until they arrive, with \<open>isLoading\<close>; \<open>isPending\<close> of the
  mutation) and the component's own state.
\<close>

definition render :: "string \<Rightarrow> Customer list \<Rightarrow> bool \<Rightarrow> bool \<Rightarrow> state \<Rightarrow> view" where
  "render currency customers isLoading isPending s =
     \<lparr>content =
        (if isLoading then Placeholders 4
         else if length (debtorCustomers (sortOrder s) customers) = 0 then NoDebts
         else Rows (map (debtorRow currency) (debtorCustomers (sortOrder s) customers))),
      card_footer = renderFooter currency (debtorCustomers (sortOrder s) customers),
      dialog_open = showPaymentModal s,
      dialog_buttons = renderButtons isPending s\<rparr>"

subsection \<open>The vocabulary of the properties\<close>

text \<open>
  The numbers the properties speak about: the parsed debt of a record as the comparator
  and the footer read it, the time value of its creation timestamp as the comparator reads
  it, and the same with an invalid date counted as the start of the epoch. A sequence of
  numbers is non-increasing when each is \<open>>=\<close> its successor. A record has a positive debt
  when the debt is present and parses to a number above zero.
\<close>

definition parsedDebt :: "Customer \<Rightarrow> number" where
  "parsedDebt customer = parseFloat (nullish (totalDebt customer) ''0'')"

definition createdTime :: "Customer \<Rightarrow> number" where
  "createdTime customer = Date_getTime (nullish (createdAt customer) [])"

definition epochTime :: "Customer \<Rightarrow> number" where
  "epochTime customer = (if createdTime customer = NaN then Fin 0 else createdTime customer)"

fun nonIncreasing :: "number list \<Rightarrow> bool" where
  "nonIncreasing [] = True"
| "nonIncreasing [x] = True"
| "nonIncreasing (x # y # zs) = (js_ge x y \<and> nonIncreasing (y # zs))"

definition positiveDebt :: "Customer \<Rightarrow> bool" where
  "positiveDebt customer =
     (case totalDebt customer of None \<Rightarrow> False | Some s \<Rightarrow> js_gt (parseFloat s) (Fin 0))"

text \<open>
  The footer's sum in the words of the specification: the parsed debts of the list added
  up from zero in the order of the list, a debt that does not parse counting as zero.
\<close>

definition debtContribution :: "Customer \<Rightarrow> number" where
  "debtContribution customer = (if parsedDebt customer = NaN then Fin 0 else parsedDebt customer)"


section \<open>Properties\<close>

subsection \<open>Numbers and sorting\<close>

lemma parseFloat_empty: "parseFloat [] = NaN"
  by (simp add: parseFloat_def)

lemma js_gt_zero_not_NaN: "js_gt a (Fin 0) \<Longrightarrow> a \<noteq> NaN"
  by (cases a) (simp_all add: js_gt_def)

lemma js_ge_trans: "js_ge a b \<Longrightarrow> js_ge b c \<Longrightarrow> js_ge a c"
  by (cases a; cases b; cases c) (simp_all add: js_ge_def)

lemma js_ge_total: "a \<noteq> NaN \<Longrightarrow> b \<noteq> NaN \<Longrightarrow> \<not> js_lt a b \<Longrightarrow> js_ge a b"
  by (simp add: js_ge_def)

lemma js_lt_imp_ge: "js_lt a b \<Longrightarrow> js_ge b a"
  by (cases a; cases b) (simp_all add: js_ge_def)

lemma SortCompare_positive:
  "cmp x y = js_sub b a \<Longrightarrow> a \<noteq> NaN \<Longrightarrow> b \<noteq> NaN \<Longrightarrow>
   js_gt (SortCompare cmp x y) (Fin 0) = js_lt a b"
  by (cases a; cases b) (simp_all add: SortCompare_def js_gt_def js_sub_def)

lemma set_sort_insert: "set (sort_insert cmp x ys) = insert x (set ys)"
  by (induction ys) auto

lemma mset_sort_insert: "mset (sort_insert cmp x ys) = add_mset x (mset ys)"
  by (induction ys) auto

lemma mset_Array_sort: "mset (Array_sort cmp xs) = mset xs"
  by (induction xs) (simp_all add: mset_sort_insert)

lemma set_Array_sort: "set (Array_sort cmp xs) = set xs"
  using mset_Array_sort [of cmp xs] by (metis set_mset_mset)

lemma sorted_sort_insert:
  assumes cmp: "\<And>a b. cmp a b = js_sub (key b) (key a)"
    and x: "key x \<noteq> NaN"
    and ys: "\<forall>y \<in> set ys. key y \<noteq> NaN"
    and sorted: "sorted_wrt (\<lambda>a b. js_ge (key a) (key b)) ys"
  shows "sorted_wrt (\<lambda>a b. js_ge (key a) (key b)) (sort_insert cmp x ys)"
  using ys sorted
proof (induction ys)
  case Nil
  then show ?case by simp
next
  case (Cons y ys)
  have y: "key y \<noteq> NaN" using Cons.prems(1) by simp
  have test: "js_gt (SortCompare cmp x y) (Fin 0) = js_lt (key x) (key y)"
    using cmp [of x y] x y by (rule SortCompare_positive)
  show ?case
  proof (cases "js_lt (key x) (key y)")
    case True
    have "js_ge (key y) (key x)" using True by (rule js_lt_imp_ge)
    moreover have "sorted_wrt (\<lambda>a b. js_ge (key a) (key b)) (sort_insert cmp x ys)"
      using Cons by simp
    ultimately show ?thesis
      using True test Cons.prems(2) by (auto simp: set_sort_insert)
  next
    case False
    have xy: "js_ge (key x) (key y)" using False x y by (simp add: js_ge_total)
    have "\<forall>z \<in> set ys. js_ge (key x) (key z)"
      using xy Cons.prems(2) by (auto intro: js_ge_trans)
    then show ?thesis
      using False test xy Cons.prems(2) by simp
  qed
qed

lemma sorted_Array_sort:
  assumes cmp: "\<And>a b. cmp a b = js_sub (key b) (key a)"
    and xs: "\<forall>x \<in> set xs. key x \<noteq> NaN"
  shows "sorted_wrt (\<lambda>a b. js_ge (key a) (key b)) (Array_sort cmp xs)"
  using xs
proof (induction xs)
  case Nil
  then show ?case by simp
next
  case (Cons x xs)
  then show ?case
    by (simp add: sorted_sort_insert [OF cmp] set_Array_sort)
qed

lemma nonIncreasing_sorted_wrt:
  "sorted_wrt (\<lambda>a b. js_ge (key a) (key b)) xs \<Longrightarrow> nonIncreasing (map key xs)"
  by (induction xs rule: induct_list012) simp_all

lemma hasDebt_positiveDebt: "hasDebt c = positiveDebt c"
  by (auto simp: hasDebt_def positiveDebt_def parseFloat_empty js_gt_def split: option.splits)

lemma hasDebt_parsedDebt: "hasDebt c \<Longrightarrow> js_gt (parsedDebt c) (Fin 0)"
  by (auto simp: hasDebt_def parsedDebt_def nullish_def split: option.splits)

lemma set_debtorCustomers:
  "set (debtorCustomers order customers) = {c \<in> set customers. hasDebt c}"
  by (simp add: debtorCustomers_def set_Array_sort)

subsection \<open>The debtor list\<close>

text \<open>
  C2. Whatever the sort order, the debtor list holds exactly the fetched records with a
  positive debt, each as often as it was fetched: the records whose debt is present and
  parses to a number that is neither \<open>NaN\<close> nor \<open><= 0\<close>. Records with an absent, unparsable,
  zero or negative debt are left out.
\<close>

theorem debtorCustomers_exactly_debtors:
  "mset (debtorCustomers order customers) = filter_mset positiveDebt (mset customers)
   \<and> (positiveDebt c \<longleftrightarrow>
        (\<exists>s. totalDebt c = Some s \<and> parseFloat s \<noteq> NaN \<and> \<not> js_le (parseFloat s) (Fin 0)))"
proof
  have "hasDebt = positiveDebt" by (rule ext) (rule hasDebt_positiveDebt)
  then show "mset (debtorCustomers order customers) = filter_mset positiveDebt (mset customers)"
    by (simp add: debtorCustomers_def mset_Array_sort)
next
  show "positiveDebt c \<longleftrightarrow>
        (\<exists>s. totalDebt c = Some s \<and> parseFloat s \<noteq> NaN \<and> \<not> js_le (parseFloat s) (Fin 0))"
  proof (cases "totalDebt c")
    case None
    then show ?thesis by (simp add: positiveDebt_def)
  next
    case (Some s)
    then show ?thesis
      by (cases "parseFloat s") (simp_all add: positiveDebt_def js_gt_def js_le_def)
  qed
qed

text \<open>
  C3. Sorted by \<open>highest\<close>, the parsed debts of the debtor list are
  non-increasing. Sorted by \<open>newest\<close>, the time values of the creation timestamps are
  non-increasing, provided the timestamp of every record with a debt is a valid date.
\<close>

theorem debtorCustomers_sorted:
  "nonIncreasing (map parsedDebt (debtorCustomers Highest customers))
   \<and> ((\<forall>c \<in> set customers. hasDebt c \<longrightarrow> createdTime c \<noteq> NaN) \<longrightarrow>
        nonIncreasing (map createdTime (debtorCustomers Newest customers)))"
proof (intro conjI impI)
  have "\<forall>c \<in> set (filter hasDebt customers). parsedDebt c \<noteq> NaN"
    using hasDebt_parsedDebt js_gt_zero_not_NaN by auto
  then have "sorted_wrt (\<lambda>a b. js_ge (parsedDebt a) (parsedDebt b))
      (Array_sort (compareDebtors Highest) (filter hasDebt customers))"
    by (intro sorted_Array_sort) (simp_all add: compareDebtors_def parsedDebt_def)
  then show "nonIncreasing (map parsedDebt (debtorCustomers Highest customers))"
    unfolding debtorCustomers_def by (rule nonIncreasing_sorted_wrt)
next
  assume "\<forall>c \<in> set customers. hasDebt c \<longrightarrow> createdTime c \<noteq> NaN"
  then have "\<forall>c \<in> set (filter hasDebt customers). createdTime c \<noteq> NaN"
    by simp
  then have "sorted_wrt (\<lambda>a b. js_ge (createdTime a) (createdTime b))
      (Array_sort (compareDebtors Newest) (filter hasDebt customers))"
    by (intro sorted_Array_sort) (simp_all add: compareDebtors_def createdTime_def)
  then show "nonIncreasing (map createdTime (debtorCustomers Newest customers))"
    unfolding debtorCustomers_def by (rule nonIncreasing_sorted_wrt)
qed

text \<open>
  An absent or unparsable timestamp does not count as the start of the epoch: the time
  value of an invalid date is \<open>NaN\<close>, the comparator returns \<open>NaN\<close>, and such a record
  compares equal to every other. A record with no timestamp that is fetched before a
  record created in 2020 stays before it, so with invalid dates read as the epoch the
  sequence of timestamps increases.
\<close>

theorem newest_epoch_counterexample:
  "\<not> nonIncreasing (map epochTime (debtorCustomers Newest
      [\<lparr>id' = ''c1'', name = ''Omar'', totalDebt = Some ''250'', createdAt = None\<rparr>,
       \<lparr>id' = ''c2'', name = ''Ali'', totalDebt = Some ''1500.00'',
          createdAt = Some ''2020-01-01T00:00:00.000Z''\<rparr>]))"
  by code_simp

theorem debtorCustomers_sorted_witness:
  "list_all (\<lambda>c. createdTime c \<noteq> NaN)
     [\<lparr>id' = ''c1'', name = ''Omar'', totalDebt = Some ''250'',
         createdAt = Some ''2019-06-30T23:59:59.000Z''\<rparr>,
      \<lparr>id' = ''c2'', name = ''Ali'', totalDebt = Some ''1500.00'',
         createdAt = Some ''2020-01-01T00:00:00.000Z''\<rparr>]
   \<and> nonIncreasing (map createdTime (debtorCustomers Newest
     [\<lparr>id' = ''c1'', name = ''Omar'', totalDebt = Some ''250'',
         createdAt = Some ''2019-06-30T23:59:59.000Z''\<rparr>,
      \<lparr>id' = ''c2'', name = ''Ali'', totalDebt = Some ''1500.00'',
         createdAt = Some ''2020-01-01T00:00:00.000Z''\<rparr>]))
   \<and> map id' (debtorCustomers Newest
     [\<lparr>id' = ''c1'', name = ''Omar'', totalDebt = Some ''250'',
         createdAt = Some ''2019-06-30T23:59:59.000Z''\<rparr>,
      \<lparr>id' = ''c2'', name = ''Ali'', totalDebt = Some ''1500.00'',
         createdAt = Some ''2020-01-01T00:00:00.000Z''\<rparr>]) = [''c2'', ''c1'']"
proof -
  let ?cs = "[\<lparr>id' = ''c1'', name = ''Omar'', totalDebt = Some ''250'',
         createdAt = Some ''2019-06-30T23:59:59.000Z''\<rparr>,
      \<lparr>id' = ''c2'', name = ''Ali'', totalDebt = Some ''1500.00'',
         createdAt = Some ''2020-01-01T00:00:00.000Z''\<rparr>]"
  have valid: "list_all (\<lambda>c. createdTime c \<noteq> NaN) ?cs"
    by code_simp
  then have "\<forall>c \<in> set ?cs. hasDebt c \<longrightarrow> createdTime c \<noteq> NaN"
    unfolding list_all_iff by blast
  with debtorCustomers_sorted [of ?cs]
  have "nonIncreasing (map createdTime (debtorCustomers Newest ?cs))"
    by blast
  moreover have "map id' (debtorCustomers Newest ?cs) = [''c2'', ''c1'']"
    by code_simp
  ultimately show ?thesis using valid by blast
qed

subsection \<open>Submitting a payment\<close>

lemma js_gt_not_le: "js_gt a (Fin 0) \<Longrightarrow> \<not> js_le a (Fin 0)"
  by (cases a) (simp_all add: js_gt_def js_le_def)

text \<open>
  C1. The confirm handler never changes the state. With no customer selected
  or an empty amount it does nothing at all: no request and no notification. With a
  customer, a non-empty amount and a parsed amount \<open><= 0\<close> it issues no request and shows
  the validation notification. With a customer and a parsed amount above zero it issues
  exactly one request, a POST to the payment path of the customer's id that carries the
  parsed amount and the currency, and shows no notification.
\<close>

theorem handlePayment_outcomes:
  "fst (handlePayment s) = s
   \<and> (selectedCustomer s = None \<or> paymentAmount s = [] \<longrightarrow> snd (handlePayment s) = [])
   \<and> (selectedCustomer s \<noteq> None \<and> paymentAmount s \<noteq> []
        \<and> js_le (parseFloat (paymentAmount s)) (Fin 0) \<longrightarrow>
        snd (handlePayment s) =
          [Toast \<lparr>title = ErrorTitle, description = [Lit AmountMustBePositive],
                  variant = Destructive\<rparr>]
        \<and> requests currency (snd (handlePayment s)) = [])
   \<and> (selectedCustomer s = Some c \<and> js_gt (parseFloat (paymentAmount s)) (Fin 0) \<longrightarrow>
        snd (handlePayment s) =
          [Mutate \<lparr>customerId = id' c, amount = parseFloat (paymentAmount s)\<rparr>]
        \<and> requests currency (snd (handlePayment s)) =
          [\<lparr>verb = ''POST'', url = ''/api/customers/'' @ id' c @ ''/payment'',
            body_amount = parseFloat (paymentAmount s), body_currency = currency\<rparr>]
        \<and> toasts (snd (handlePayment s)) = [])"
proof (intro conjI impI)
  show "fst (handlePayment s) = s"
    by (simp add: handlePayment_def)
next
  assume "selectedCustomer s = None \<or> paymentAmount s = []"
  then show "snd (handlePayment s) = []"
    by (auto simp: handlePayment_def)
next
  assume a: "selectedCustomer s \<noteq> None \<and> paymentAmount s \<noteq> []
        \<and> js_le (parseFloat (paymentAmount s)) (Fin 0)"
  then show "snd (handlePayment s) =
          [Toast \<lparr>title = ErrorTitle, description = [Lit AmountMustBePositive],
                  variant = Destructive\<rparr>]"
    by (simp add: handlePayment_def)
  then show "requests currency (snd (handlePayment s)) = []"
    by simp
next
  assume a: "selectedCustomer s = Some c \<and> js_gt (parseFloat (paymentAmount s)) (Fin 0)"
  then have pos: "\<not> js_le (parseFloat (paymentAmount s)) (Fin 0)"
    by (simp add: js_gt_not_le)
  have ne: "paymentAmount s \<noteq> []"
    using a by (auto simp: parseFloat_empty js_gt_def)
  show effects: "snd (handlePayment s) =
          [Mutate \<lparr>customerId = id' c, amount = parseFloat (paymentAmount s)\<rparr>]"
    using a pos ne by (simp add: handlePayment_def)
  show "requests currency (snd (handlePayment s)) =
          [\<lparr>verb = ''POST'', url = ''/api/customers/'' @ id' c @ ''/payment'',
            body_amount = parseFloat (paymentAmount s), body_currency = currency\<rparr>]"
    unfolding effects by (simp add: mutationFn_request_def)
  show "toasts (snd (handlePayment s)) = []"
    unfolding effects by simp
qed

text \<open>
  Not every submission without a request shows the validation notification: with a
  customer selected and the amount field empty the handler returns at its guard, before
  any notification.
\<close>

theorem handlePayment_silent_counterexample:
  "requests ''USD'' (snd (handlePayment
      \<lparr>sortOrder = Highest, showPaymentModal = True,
       selectedCustomer = Some \<lparr>id' = ''abc123'', name = ''Ali'', totalDebt = Some ''1500.00'',
                                createdAt = None\<rparr>,
       paymentAmount = []\<rparr>)) = []
   \<and> toasts (snd (handlePayment
      \<lparr>sortOrder = Highest, showPaymentModal = True,
       selectedCustomer = Some \<lparr>id' = ''abc123'', name = ''Ali'', totalDebt = Some ''1500.00'',
                                createdAt = None\<rparr>,
       paymentAmount = []\<rparr>)) = []"
  by (simp add: handlePayment_def)

theorem handlePayment_outcomes_witness:
  "snd (handlePayment
      \<lparr>sortOrder = Highest, showPaymentModal = True, selectedCustomer = None,
       paymentAmount = ''500''\<rparr>) = []
   \<and> toasts (snd (handlePayment
      \<lparr>sortOrder = Highest, showPaymentModal = True,
       selectedCustomer = Some \<lparr>id' = ''abc123'', name = ''Ali'', totalDebt = Some ''1500.00'',
                                createdAt = None\<rparr>,
       paymentAmount = ''0''\<rparr>)) =
       [\<lparr>title = ErrorTitle, description = [Lit AmountMustBePositive], variant = Destructive\<rparr>]
   \<and> requests ''USD'' (snd (handlePayment
      \<lparr>sortOrder = Highest, showPaymentModal = True,
       selectedCustomer = Some \<lparr>id' = ''abc123'', name = ''Ali'', totalDebt = Some ''1500.00'',
                                createdAt = None\<rparr>,
       paymentAmount = ''500''\<rparr>)) =
       [\<lparr>verb = ''POST'', url = ''/api/customers/abc123/payment'', body_amount = Fin 500,
         body_currency = ''USD''\<rparr>]"
proof -
  let ?ali = "\<lparr>id' = ''abc123'', name = ''Ali'', totalDebt = Some ''1500.00'', createdAt = None\<rparr>"
  let ?none = "\<lparr>sortOrder = Highest, showPaymentModal = True, selectedCustomer = None,
       paymentAmount = ''500''\<rparr>"
  let ?zero = "\<lparr>sortOrder = Highest, showPaymentModal = True, selectedCustomer = Some ?ali,
       paymentAmount = ''0''\<rparr>"
  let ?ok = "\<lparr>sortOrder = Highest, showPaymentModal = True, selectedCustomer = Some ?ali,
       paymentAmount = ''500''\<rparr>"
  have p0: "parseFloat ''0'' = Fin 0" by code_simp
  have p500: "parseFloat ''500'' = Fin 500" by code_simp
  have "selectedCustomer ?none = None \<or> paymentAmount ?none = []"
    by simp
  with handlePayment_outcomes [of ?none] have 1: "snd (handlePayment ?none) = []"
    by blast
  have "selectedCustomer ?zero \<noteq> None \<and> paymentAmount ?zero \<noteq> []
        \<and> js_le (parseFloat (paymentAmount ?zero)) (Fin 0)"
    by (simp add: p0 js_le_def)
  with handlePayment_outcomes [of ?zero] have "snd (handlePayment ?zero) =
       [Toast \<lparr>title = ErrorTitle, description = [Lit AmountMustBePositive],
               variant = Destructive\<rparr>]"
    by blast
  then have 2: "toasts (snd (handlePayment ?zero)) =
       [\<lparr>title = ErrorTitle, description = [Lit AmountMustBePositive], variant = Destructive\<rparr>]"
    by simp
  have "selectedCustomer ?ok = Some ?ali \<and> js_gt (parseFloat (paymentAmount ?ok)) (Fin 0)"
    by (simp add: p500 js_gt_def)
  with handlePayment_outcomes [of ?ok "''USD''" ?ali]
  have "requests ''USD'' (snd (handlePayment ?ok)) =
          [\<lparr>verb = ''POST'', url = ''/api/customers/'' @ id' ?ali @ ''/payment'',
            body_amount = parseFloat (paymentAmount ?ok), body_currency = ''USD''\<rparr>]"
    by blast
  then have 3: "requests ''USD'' (snd (handlePayment ?ok)) =
       [\<lparr>verb = ''POST'', url = ''/api/customers/abc123/payment'', body_amount = Fin 500,
         body_currency = ''USD''\<rparr>]"
    by (simp add: p500)
  from 1 2 3 show ?thesis by blast
qed

subsection \<open>The callbacks of the payment mutation\<close>

text \<open>
  C4. A payment response that is OK and carries a JSON body runs the success
  callback: it invalidates the customer collection and the transaction collection,
  refetches the customer collection and no other, shows one success notification made of
  the draft amount, the currency and the remaining debt of the response with two decimals
  (zero when the response has no \<open>newDebt\<close>), issues no payment request, closes the dialog
  and clears the selected customer and the draft amount.
\<close>

theorem onSuccess_effects:
  "settle currency (Resolved True (Some d)) s = onSuccess currency d s
   \<and> invalidated (snd (onSuccess currency d s)) = [[''/api/customers''], [''/api/transactions'']]
   \<and> refetched (snd (onSuccess currency d s)) = [[''/api/customers'']]
   \<and> toasts (snd (onSuccess currency d s)) =
       [\<lparr>title = PaymentSucceeded,
         description =
           [Lit Paid, Txt (paymentAmount s), Txt '' '', Txt currency, Lit RemainingBalance,
            Txt (toFixed 2 (or_zero (newDebt d))), Txt '' '', Txt currency],
         variant = Default\<rparr>]
   \<and> or_zero None = Fin 0
   \<and> requests currency (snd (onSuccess currency d s)) = []
   \<and> showPaymentModal (fst (onSuccess currency d s)) = False
   \<and> selectedCustomer (fst (onSuccess currency d s)) = None
   \<and> paymentAmount (fst (onSuccess currency d s)) = []
   \<and> sortOrder (fst (onSuccess currency d s)) = sortOrder s"
  by (simp add: settle_def mutationFn_result_def onSuccess_def or_zero_def)

text \<open>
  The transaction collection is not refetched: the callback calls \<open>refetchQueries\<close>
  once, for the customer collection, and the transaction collection is invalidated only.
\<close>

theorem refetch_transactions_counterexample:
  "[''/api/transactions''] \<notin> set (refetched (snd (settle ''USD''
      (Resolved True (Some \<lparr>newDebt = Some (Fin 1000)\<rparr>))
      \<lparr>sortOrder = Highest, showPaymentModal = True,
       selectedCustomer = Some \<lparr>id' = ''abc123'', name = ''Ali'', totalDebt = Some ''1500.00'',
                                createdAt = None\<rparr>,
       paymentAmount = ''500''\<rparr>)))"
  by (simp add: settle_def mutationFn_result_def onSuccess_def)

text \<open>
  C5. When the request is rejected, the response is not OK, or its body cannot be read,
  the error callback runs: the state is left as it was and the one effect is the failure
  notification. Over the whole submission the dialog flag, the selected
  customer and the draft amount are the ones from before the submission.
\<close>

theorem failure_keeps_draft:
  assumes "r = Rejected \<or> r = Resolved False body \<or> r = Resolved True None"
  shows "settle currency r s =
        (s, [Toast \<lparr>title = PaymentError, description = [Lit PaymentProcessingFailed],
                     variant = Destructive\<rparr>])
    \<and> showPaymentModal (fst (submit currency r s)) = showPaymentModal s
    \<and> selectedCustomer (fst (submit currency r s)) = selectedCustomer s
    \<and> paymentAmount (fst (submit currency r s)) = paymentAmount s"
proof -
  have failed: "settle currency r s =
      (s, [Toast \<lparr>title = PaymentError, description = [Lit PaymentProcessingFailed],
                   variant = Destructive\<rparr>])"
    using assms by (auto simp: settle_def mutationFn_result_def onError_def)
  have "fst (handlePayment s) = s"
    by (simp add: handlePayment_def)
  then have "fst (submit currency r s) = s"
    using failed by (cases "handlePayment s") (simp add: submit_def)
  then show ?thesis
    using failed by simp
qed

theorem failure_keeps_draft_witness:
  "showPaymentModal (fst (submit ''USD'' (Resolved False None)
      \<lparr>sortOrder = Highest, showPaymentModal = True,
       selectedCustomer = Some \<lparr>id' = ''abc123'', name = ''Ali'', totalDebt = Some ''1500.00'',
                                createdAt = None\<rparr>,
       paymentAmount = ''500''\<rparr>)) = True
   \<and> selectedCustomer (fst (submit ''USD'' (Resolved False None)
      \<lparr>sortOrder = Highest, showPaymentModal = True,
       selectedCustomer = Some \<lparr>id' = ''abc123'', name = ''Ali'', totalDebt = Some ''1500.00'',
                                createdAt = None\<rparr>,
       paymentAmount = ''500''\<rparr>)) =
       Some \<lparr>id' = ''abc123'', name = ''Ali'', totalDebt = Some ''1500.00'', createdAt = None\<rparr>
   \<and> paymentAmount (fst (submit ''USD'' (Resolved False None)
      \<lparr>sortOrder = Highest, showPaymentModal = True,
       selectedCustomer = Some \<lparr>id' = ''abc123'', name = ''Ali'', totalDebt = Some ''1500.00'',
                                createdAt = None\<rparr>,
       paymentAmount = ''500''\<rparr>)) = ''500''
   \<and> toasts (snd (submit ''USD'' (Resolved False None)
      \<lparr>sortOrder = Highest, showPaymentModal = True,
       selectedCustomer = Some \<lparr>id' = ''abc123'', name = ''Ali'', totalDebt = Some ''1500.00'',
                                createdAt = None\<rparr>,
       paymentAmount = ''500''\<rparr>)) =
       [\<lparr>title = PaymentError, description = [Lit PaymentProcessingFailed],
         variant = Destructive\<rparr>]"
proof -
  let ?s = "\<lparr>sortOrder = Highest, showPaymentModal = True,
       selectedCustomer = Some \<lparr>id' = ''abc123'', name = ''Ali'', totalDebt = Some ''1500.00'',
                                createdAt = None\<rparr>,
       paymentAmount = ''500''\<rparr>"
  have r: "Resolved False None = Rejected \<or> Resolved False None = Resolved False None
      \<or> Resolved False None = Resolved True None"
    by simp
  have t: "toasts (snd (submit ''USD'' (Resolved False None) ?s)) =
       [\<lparr>title = PaymentError, description = [Lit PaymentProcessingFailed],
         variant = Destructive\<rparr>]"
    by code_simp
  from failure_keeps_draft [OF r, of "''USD''" ?s] t show ?thesis
    by simp
qed

subsection \<open>Opening the payment dialog\<close>

text \<open>
  C8. From every state, opening the payment dialog for a customer selects that customer,
  empties the draft amount, opens the dialog, keeps the sort order, and has no effect
  besides: no notification, no cache operation, no request.
\<close>

theorem openPaymentModal_resets:
  "selectedCustomer (fst (openPaymentModal c s)) = Some c
   \<and> paymentAmount (fst (openPaymentModal c s)) = []
   \<and> showPaymentModal (fst (openPaymentModal c s)) = True
   \<and> sortOrder (fst (openPaymentModal c s)) = sortOrder s
   \<and> snd (openPaymentModal c s) = []
   \<and> requests currency (snd (openPaymentModal c s)) = []"
  by (simp add: openPaymentModal_def)

subsection \<open>Rendering\<close>

text \<open>
  C6. The colour of a debt is the neutral one exactly for an absent or empty
  text. For any other text it follows the parsed value: the highest tier from 5000 on, the
  middle tier from 1000 on, and the lowest tier for everything else, which includes zero,
  negative values and texts that do not parse.
\<close>

theorem getDebtColor_tiers:
  "getDebtColor None = ''text-slate-500''
   \<and> getDebtColor (Some []) = ''text-slate-500''
   \<and> (t \<noteq> [] \<longrightarrow>
        getDebtColor (Some t) =
          (case parseFloat t of
             Fin x \<Rightarrow> if 5000 \<le> x then ''text-red-600''
                      else if 1000 \<le> x then ''text-orange-600''
                      else ''text-yellow-600''
           | PosInf \<Rightarrow> ''text-red-600''
           | NegInf \<Rightarrow> ''text-yellow-600''
           | NaN \<Rightarrow> ''text-yellow-600''))"
  by (cases "parseFloat t") (simp_all add: getDebtColor_def truthy_def js_ge_def)

text \<open>
  A debt of zero does not get the neutral tone: the text \<open>0\<close> is not empty, so the
  guard does not apply and the debt gets the colour of the lowest tier.
\<close>

theorem zero_debt_color_counterexample:
  "parseFloat ''0'' = Fin 0 \<and> getDebtColor (Some ''0'') = ''text-yellow-600''"
  by code_simp

theorem getDebtColor_tiers_witness:
  "getDebtColor (Some ''7000.50'') = ''text-red-600''
   \<and> getDebtColor (Some ''1500.00'') = ''text-orange-600''
   \<and> getDebtColor (Some ''250'') = ''text-yellow-600''"
proof -
  have a: "parseFloat ''7000.50'' = Fin (14001 / 2)" by code_simp
  have b: "parseFloat ''1500.00'' = Fin 1500" by code_simp
  have c: "parseFloat ''250'' = Fin 250" by code_simp
  have "getDebtColor (Some ''7000.50'') = ''text-red-600''"
    using getDebtColor_tiers [of "''7000.50''"] by (simp add: a)
  moreover have "getDebtColor (Some ''1500.00'') = ''text-orange-600''"
    using getDebtColor_tiers [of "''1500.00''"] by (simp add: b)
  moreover have "getDebtColor (Some ''250'') = ''text-yellow-600''"
    using getDebtColor_tiers [of "''250''"] by (simp add: c)
  ultimately show ?thesis by simp
qed

lemma hasDebt_cases:
  assumes "hasDebt c"
  obtains t where "totalDebt c = Some t" and "t \<noteq> []" and "js_gt (parseFloat t) (Fin 0)"
  using assms by (auto simp: hasDebt_def split: option.splits)

lemma js_add_nonneg:
  "js_ge a (Fin 0) \<Longrightarrow> js_gt b (Fin 0) \<Longrightarrow> js_gt (js_add a b) (Fin 0)"
  by (cases a; cases b) (simp_all add: js_ge_def js_gt_def)

lemma js_gt_imp_ge: "js_gt a (Fin 0) \<Longrightarrow> js_ge a (Fin 0)"
  by (cases a) (simp_all add: js_ge_def js_gt_def)

lemma foldl_add_nonneg:
  "js_ge acc (Fin 0) \<Longrightarrow> \<forall>c \<in> set ds. js_gt (key c) (Fin 0) \<Longrightarrow>
   js_ge (foldl (\<lambda>sum c. js_add sum (key c)) acc ds) (Fin 0)"
proof (induction ds arbitrary: acc)
  case Nil
  then show ?case by simp
next
  case (Cons d ds)
  have "js_ge (js_add acc (key d)) (Fin 0)"
    using Cons.prems by (simp add: js_add_nonneg js_gt_imp_ge)
  then show ?case
    using Cons by simp
qed

lemma debtSum_parsedDebt:
  "debtSum ds = foldl (\<lambda>sum c. js_add sum (parsedDebt c)) (Fin 0) ds"
  by (simp add: debtSum_def parsedDebt_def)

lemma debtSum_nonneg:
  "\<forall>c \<in> set ds. hasDebt c \<Longrightarrow> js_ge (debtSum ds) (Fin 0)"
  unfolding debtSum_parsedDebt
  by (rule foldl_add_nonneg) (simp_all add: js_ge_def hasDebt_parsedDebt)



lemma debtors_hasDebt: "\<forall>c \<in> set (debtorCustomers order customers). hasDebt c"
  by (simp add: set_debtorCustomers)












text \<open>
  C9. While the mutation is pending, the buttons of the dialog, which are rendered when a
  customer is selected, are a disabled confirm button with the busy label and a disabled
  cancel button.
\<close>

theorem pending_disables_buttons:
  "dialog_buttons (render currency customers isLoading True s) =
     (case selectedCustomer s of
        None \<Rightarrow> None
      | Some c \<Rightarrow>
          Some \<lparr>confirmDisabled = True, confirmLabel = Processing, cancelDisabled = True\<rparr>)"
  by (simp add: render_def renderButtons_def split: option.splits)

text \<open>
  C10. Every record of the debtor list has a debt that is present and parses
  to a number above zero. Its formatted amount is \<open>toFixed(2)\<close> of that number, never the
  fallback of \<open>formatDebt\<close>; its colour is never the neutral one; what it adds to the
  footer's sum is its parsed debt, never \<open>NaN\<close>, and the sum is not \<open>NaN\<close>.
\<close>

theorem debtor_rows_positive:
  assumes "c \<in> set (debtorCustomers order customers)"
  shows "(\<exists>t. totalDebt c = Some t \<and> js_gt (parseFloat t) (Fin 0)
           \<and> formatDebt (totalDebt c) = toFixed 2 (parseFloat t))
    \<and> row_color (debtorRow currency c) \<noteq> ''text-slate-500''
    \<and> parsedDebt c \<noteq> NaN
    \<and> debtContribution c = parsedDebt c
    \<and> debtSum (debtorCustomers order customers) \<noteq> NaN"
proof -
  have "hasDebt c"
    using assms by (simp add: set_debtorCustomers)
  then obtain t where t: "totalDebt c = Some t" "t \<noteq> []" "js_gt (parseFloat t) (Fin 0)"
    by (rule hasDebt_cases)
  have valid: "parseFloat t \<noteq> NaN"
    using t(3) by (rule js_gt_zero_not_NaN)
  have fmt: "formatDebt (totalDebt c) = toFixed 2 (parseFloat t)"
    using t valid by (simp add: formatDebt_def truthy_def)
  have col: "row_color (debtorRow currency c) \<noteq> ''text-slate-500''"
    using t by (simp add: debtorRow_def getDebtColor_def truthy_def)
  have pd: "parsedDebt c \<noteq> NaN"
    using t valid by (simp add: parsedDebt_def nullish_def)
  have "js_ge (debtSum (debtorCustomers order customers)) (Fin 0)"
    by (rule debtSum_nonneg) (rule debtors_hasDebt)
  then have total: "debtSum (debtorCustomers order customers) \<noteq> NaN"
    by (simp add: js_ge_def)
  show ?thesis
    using t fmt col pd total by (simp add: debtContribution_def)
qed

text \<open>
  The formatted amount of a debtor can be \<open>0.00\<close>: a debt below half a cent is above
  zero and rounds to \<open>0.00\<close>.
\<close>

theorem debtor_row_zero_counterexample:
  "debtorCustomers Highest
      [\<lparr>id' = ''c4'', name = ''Zaid'', totalDebt = Some ''0.001'', createdAt = None\<rparr>] =
      [\<lparr>id' = ''c4'', name = ''Zaid'', totalDebt = Some ''0.001'', createdAt = None\<rparr>]
   \<and> formatDebt (Some ''0.001'') = ''0.00''"
  by code_simp

theorem debtor_rows_positive_witness:
  "\<lparr>id' = ''c2'', name = ''Ali'', totalDebt = Some ''1500.00'', createdAt = None\<rparr>
     \<in> set (debtorCustomers Highest
      [\<lparr>id' = ''c3'', name = ''Nora'', totalDebt = Some ''0'', createdAt = None\<rparr>,
       \<lparr>id' = ''c2'', name = ''Ali'', totalDebt = Some ''1500.00'', createdAt = None\<rparr>])
   \<and> row_color (debtorRow ''USD''
        \<lparr>id' = ''c2'', name = ''Ali'', totalDebt = Some ''1500.00'', createdAt = None\<rparr>)
      \<noteq> ''text-slate-500''
   \<and> debtSum (debtorCustomers Highest
      [\<lparr>id' = ''c3'', name = ''Nora'', totalDebt = Some ''0'', createdAt = None\<rparr>,
       \<lparr>id' = ''c2'', name = ''Ali'', totalDebt = Some ''1500.00'', createdAt = None\<rparr>]) \<noteq> NaN"
proof -
  let ?ali = "\<lparr>id' = ''c2'', name = ''Ali'', totalDebt = Some ''1500.00'', createdAt = None\<rparr>"
  let ?cs = "[\<lparr>id' = ''c3'', name = ''Nora'', totalDebt = Some ''0'', createdAt = None\<rparr>, ?ali]"
  have "debtorCustomers Highest ?cs = [?ali]"
    by code_simp
  then have "?ali \<in> set (debtorCustomers Highest ?cs)"
    by simp
  from this debtor_rows_positive [OF this, of "''USD''"] show ?thesis
    by blast
qed

end
